theory Spec2Isabelle
  imports Main "HOL-Library.Sublist"
begin

section \<open>Go strings and the library functions the data source calls\<close>

text \<open>
  A Go string is a sequence of bytes, so it is modelled as \<^typ>\<open>string\<close>: a list of
  8-bit characters. The data source calls four library functions on strings:
  \<^verbatim>\<open>strings.ToLower\<close>, \<^verbatim>\<open>strings.Replace\<close>, \<^verbatim>\<open>fmt.Sprintf\<close> and, through the verb
  \<^verbatim>\<open>%q\<close>, \<^verbatim>\<open>strconv.Quote\<close>. On bytes below \<^verbatim>\<open>0x80\<close> they are modelled in full. What
  they do from a byte \<^verbatim>\<open>0x80\<close> on depends on the Unicode tables of the Go runtime, which
  are no part of this repository: that part is a parameter of the model (\<open>runtime\<close>
  below, which also holds the JSON decoder), and every theorem holds for all its values.

  A Go error is known to the data source through its texts only: what \<^verbatim>\<open>Error()\<close>
  returns, and what the verb \<^verbatim>\<open>%+v\<close> prints (the same text, unless the error has a
  \<^verbatim>\<open>Format\<close> method of its own).
\<close>

datatype error = GoError (Error: string) (Detail: string)

record ConsulConfig =
  Datacenter :: string
  RetryJoin :: "string list"

record runtime =
  lower_text :: "string \<Rightarrow> string"
    \<comment> \<open>\<^verbatim>\<open>strings.Map(unicode.ToLower, s)\<close>, for a string that is not pure ASCII\<close>
  escape_rune :: "string \<Rightarrow> string \<times> nat"
    \<comment> \<open>for a string whose first byte is \<^verbatim>\<open>0x80\<close> or more: the text \<^verbatim>\<open>strconv.Quote\<close>
        writes for its first rune, and the width of that rune in bytes\<close>
  json_Unmarshal :: "string \<Rightarrow> error + ConsulConfig"
    \<comment> \<open>\<^verbatim>\<open>json.Unmarshal\<close> of a text into a \<^verbatim>\<open>ConsulConfig\<close>\<close>

definition byte :: "char \<Rightarrow> nat" where
  "byte c = of_char c"

subsection \<open>\<^verbatim>\<open>strings.ToLower\<close>\<close>

definition lower_byte :: "char \<Rightarrow> char" where
  "lower_byte c = (if 65 \<le> byte c \<and> byte c \<le> 90 then char_of (byte c + 32) else c)"

definition isASCII :: "string \<Rightarrow> bool" where
  "isASCII s = list_all (\<lambda>c. byte c < 128) s"

definition ToLower :: "runtime \<Rightarrow> string \<Rightarrow> string" where
  "ToLower R s = (if isASCII s then map lower_byte s else lower_text R s)"

subsection \<open>\<^verbatim>\<open>strconv.Quote\<close>\<close>

definition hexdigit :: "nat \<Rightarrow> char" where
  "hexdigit n = ''0123456789abcdef'' ! (n mod 16)"

definition backslash :: char where
  "backslash = CHR 0x5C"

definition dquote :: char where
  "dquote = CHR 0x22"

definition squote :: char where
  "squote = CHR 0x27"

text \<open>
  \<^verbatim>\<open>appendEscapedRune\<close> on a rune below \<^verbatim>\<open>0x80\<close>, with the double quote as the quote
  character: the quote and the backslash get a backslash, a printable character
  (\<^verbatim>\<open>0x20\<close> to \<^verbatim>\<open>0x7E\<close>) is copied, seven control characters have a letter, the others
  are written \<^verbatim>\<open>\xhh\<close>.
\<close>

definition appendEscapedRune :: "char \<Rightarrow> string" where
  "appendEscapedRune c =
     (let r = byte c in
      if c = dquote \<or> c = backslash then [backslash, c]
      else if 32 \<le> r \<and> r \<le> 126 then [c]
      else if r = 7 then [backslash, CHR ''a'']
      else if r = 8 then [backslash, CHR ''b'']
      else if r = 12 then [backslash, CHR ''f'']
      else if r = 10 then [backslash, CHR ''n'']
      else if r = 13 then [backslash, CHR ''r'']
      else if r = 9 then [backslash, CHR ''t'']
      else if r = 11 then [backslash, CHR ''v'']
      else [backslash, CHR ''x'', hexdigit (r div 16), hexdigit (r mod 16)])"

text \<open>
  The loop of \<^verbatim>\<open>appendQuotedWith\<close>: one rune at a time. A rune is at least one byte
  wide, which \<open>max 1\<close> says of the width the parameter gives.
\<close>

function appendQuoted :: "runtime \<Rightarrow> string \<Rightarrow> string" where
  "appendQuoted R [] = []"
| "appendQuoted R (c # cs) =
     (if byte c < 128 then appendEscapedRune c @ appendQuoted R cs
      else (case escape_rune R (c # cs) of
              (out, width) \<Rightarrow> out @ appendQuoted R (drop (max 1 width) (c # cs))))"
  by pat_completeness auto
termination
  by (relation "measure (\<lambda>(R, s). length s)") auto

definition Quote :: "runtime \<Rightarrow> string \<Rightarrow> string" where
  "Quote R s = dquote # appendQuoted R s @ [dquote]"

subsection \<open>\<^verbatim>\<open>strings.Replace\<close>\<close>

text \<open>
  \<^verbatim>\<open>strings.Replace(s, old, new, n)\<close> replaces the first \<open>n\<close> non-overlapping instances
  of \<open>old\<close>, all of them when \<open>n < 0\<close>. The data source calls it with a one-byte
  \<open>old\<close>; for the empty \<open>old\<close>, where Go inserts \<open>new\<close> between runes, the model
  returns \<open>s\<close>.
\<close>

function Replace :: "string \<Rightarrow> string \<Rightarrow> string \<Rightarrow> int \<Rightarrow> string" where
  "Replace [] old new n = []"
| "Replace (c # cs) old new n =
     (if n = 0 \<or> old = [] then c # cs
      else if prefix old (c # cs)
        then new @ Replace (drop (length old) (c # cs)) old new (n - 1)
      else c # Replace cs old new n)"
  by pat_completeness auto
termination
  by (relation "measure (\<lambda>(s, old, new, n). length s)") auto

subsection \<open>\<^verbatim>\<open>fmt.Sprintf\<close>\<close>

datatype arg = String string | Strings "string list" | Err error

text \<open>
  \<^verbatim>\<open>printValue\<close> on a slice: an opening bracket, the elements under the same verb with
  one space between them, a closing bracket.
\<close>

fun elements :: "(string \<Rightarrow> string) \<Rightarrow> string list \<Rightarrow> string" where
  "elements f [] = []"
| "elements f [x] = f x"
| "elements f (x # y # ys) = f x @ '' '' @ elements f (y # ys)"

definition badVerb :: "char \<Rightarrow> string \<Rightarrow> string \<Rightarrow> string" where
  "badVerb verb ty v = ''%!'' @ [verb] @ ''('' @ ty @ ''='' @ v @ '')''"

definition fmtString :: "runtime \<Rightarrow> char \<Rightarrow> string \<Rightarrow> string" where
  "fmtString R verb s =
     (if verb = CHR ''s'' \<or> verb = CHR ''v'' then s
      else if verb = CHR ''q'' then Quote R s
      else badVerb verb ''string'' s)"

text \<open>
  The directives of this program are \<^verbatim>\<open>%s\<close>, \<^verbatim>\<open>%q\<close>, \<^verbatim>\<open>%v\<close> and \<^verbatim>\<open>%+v\<close>, on
  strings, on a slice of strings and on an error; the model covers these. An error
  prints as its \<^verbatim>\<open>Error()\<close> text under \<^verbatim>\<open>%s\<close>, \<^verbatim>\<open>%v\<close> and \<^verbatim>\<open>%q\<close>, and as
  its detailed text under \<^verbatim>\<open>%+v\<close>. Any other verb is a bad verb for these operands
  (the hexadecimal verbs, widths and the other flags, which the program does not use,
  are left out), and the dynamic type of an error is printed as \<^verbatim>\<open>error\<close>.
\<close>

definition printArg :: "runtime \<Rightarrow> bool \<Rightarrow> char \<Rightarrow> arg \<Rightarrow> string" where
  "printArg R plusFlag verb a =
     (case a of
        String s \<Rightarrow> fmtString R verb s
      | Strings xs \<Rightarrow> ''['' @ elements (fmtString R verb) xs @ '']''
      | Err e \<Rightarrow>
          if verb = CHR ''v'' \<and> plusFlag then Detail e
          else if verb = CHR ''s'' \<or> verb = CHR ''v'' then Error e
          else if verb = CHR ''q'' then Quote R (Error e)
          else badVerb verb ''error'' (Error e))"

definition typeName :: "arg \<Rightarrow> string" where
  "typeName a = (case a of String s \<Rightarrow> ''string'' | Strings xs \<Rightarrow> ''[]string'' | Err e \<Rightarrow> ''error'')"

fun extraArgs :: "runtime \<Rightarrow> arg list \<Rightarrow> string" where
  "extraArgs R [] = []"
| "extraArgs R [a] = typeName a @ ''='' @ printArg R False (CHR ''v'') a"
| "extraArgs R (a # b # bs) =
     typeName a @ ''='' @ printArg R False (CHR ''v'') a @ '', '' @ extraArgs R (b # bs)"

text \<open>
  \<^verbatim>\<open>doPrintf\<close>: the format is copied up to a percent sign; \<^verbatim>\<open>%%\<close> is a percent sign;
  a verb, after an optional \<^verbatim>\<open>+\<close>, takes the next operand, and prints
  \<^verbatim>\<open>%!v(MISSING)\<close> when there is none left. Operands left over at the end are reported
  as \<^verbatim>\<open>%!(EXTRA ...)\<close>.
\<close>

fun doPrintf :: "runtime \<Rightarrow> string \<Rightarrow> arg list \<Rightarrow> string" where
  "doPrintf R [] args = (if args = [] then [] else ''%!(EXTRA '' @ extraArgs R args @ '')'')"
| "doPrintf R (c # fmt) args =
     (if c \<noteq> CHR ''%'' then c # doPrintf R fmt args
      else (case fmt of
          [] \<Rightarrow> ''%!(NOVERB)'' @ doPrintf R [] args
        | v # rest \<Rightarrow>
            if v = CHR ''%'' then CHR ''%'' # doPrintf R rest args
            else if v = CHR ''+'' then
              (case rest of
                 [] \<Rightarrow> ''%!(NOVERB)'' @ doPrintf R [] args
               | w # rest' \<Rightarrow>
                   (case args of
                      [] \<Rightarrow> ''%!'' @ [w] @ ''(MISSING)'' @ doPrintf R rest' []
                    | a # as \<Rightarrow> printArg R True w a @ doPrintf R rest' as))
            else
              (case args of
                 [] \<Rightarrow> ''%!'' @ [v] @ ''(MISSING)'' @ doPrintf R rest []
               | a # as \<Rightarrow> printArg R False v a @ doPrintf R rest as)))"

definition Sprintf :: "runtime \<Rightarrow> string \<Rightarrow> arg list \<Rightarrow> string" where
  "Sprintf R fmt args = doPrintf R fmt args"

section \<open>The data source\<close>

subsection \<open>The template and \<^verbatim>\<open>generateHelmConfig\<close>\<close>

definition helmConfigTemplate :: string where
  "helmConfigTemplate =
     ''global:\<newline>'' @
     ''  enabled: false\<newline>'' @
     ''  name: consul\<newline>'' @
     ''  datacenter: %s\<newline>'' @
     ''  acls:\<newline>'' @
     ''    manageSystemACLs: true\<newline>'' @
     ''    bootstrapToken:\<newline>'' @
     ''      secretName: %s-bootstrap-token\<newline>'' @
     ''      secretKey: token\<newline>'' @
     ''  gossipEncryption:\<newline>'' @
     ''    secretName: %s-hcs\<newline>'' @
     ''    secretKey: gossipEncryptionKey\<newline>'' @
     ''  tls:\<newline>'' @
     ''    enabled: true\<newline>'' @
     ''    enableAutoEncrypt: true\<newline>'' @
     ''    caCert:\<newline>'' @
     ''      secretName: %s-hcs\<newline>'' @
     ''      secretKey: caCert\<newline>'' @
     ''externalServers:\<newline>'' @
     ''  enabled: true\<newline>'' @
     ''  hosts: %s\<newline>'' @
     ''  httpsPort: 443\<newline>'' @
     ''  useSystemRoots: true\<newline>'' @
     ''  k8sAuthMethodHost: https://%s:443\<newline>'' @
     ''client:\<newline>'' @
     ''  enabled: true\<newline>'' @
     ''  # If you are using Kubenet in your AKS cluster (the default network),\<newline>'' @
     ''  # uncomment the line below.\<newline>'' @
     ''  # exposeGossipPorts: true\<newline>'' @
     ''  join: %s\<newline>'' @
     ''connectInject:\<newline>'' @
     ''  enabled: true''"

definition generateHelmConfig :: "runtime \<Rightarrow> string \<Rightarrow> string \<Rightarrow> string \<Rightarrow> string list \<Rightarrow> string" where
  "generateHelmConfig R name datacenter fqdn retryJoin =
     (let lower = ToLower R name;
          rj = Sprintf R ''%q'' [Strings retryJoin];
          rj = Replace rj [dquote] [squote] (- 1)
      in Sprintf R helmConfigTemplate
           [String datacenter,
            String lower, String lower, String lower,
            String rj,
            String fqdn,
            String rj])"

subsection \<open>The resource data, the diagnostics and the clients\<close>

text \<open>
  The schema of the data source: three required inputs, one optional input and the
  computed output. The validators named in the source are declared in other files.
\<close>

datatype presence = Required | Optional | Computed

definition dataSourceAgentHelmConfig :: "(string \<times> presence) list" where
  "dataSourceAgentHelmConfig =
     [(''resource_group_name'', Required),
      (''managed_application_name'', Required),
      (''aks_cluster_name'', Required),
      (''aks_resource_group'', Optional),
      (''config'', Computed)]"

text \<open>
  \<^verbatim>\<open>schema.ResourceData\<close>, for string attributes: \<^verbatim>\<open>Get\<close> of an attribute that is not
  set is the empty string, \<^verbatim>\<open>Set\<close> refuses a key that the schema does not have.
\<close>

record ResourceData =
  attrs :: "string \<rightharpoonup> string"
  Id :: string

definition d_Get :: "ResourceData \<Rightarrow> string \<Rightarrow> string" where
  "d_Get d key = (case attrs d key of None \<Rightarrow> [] | Some v \<Rightarrow> v)"

definition d_Set :: "ResourceData \<Rightarrow> string \<Rightarrow> string \<Rightarrow> error + ResourceData" where
  "d_Set d key v =
     (case map_of dataSourceAgentHelmConfig key of
        None \<Rightarrow>
          (let msg = ''Invalid address to set: []string{'' @ [dquote] @ key @ [dquote] @ ''}''
           in Inl (GoError msg msg))
      | Some p \<Rightarrow> Inr (d\<lparr>attrs := (attrs d)(key \<mapsto> v)\<rparr>))"

definition d_SetId :: "ResourceData \<Rightarrow> string \<Rightarrow> ResourceData" where
  "d_SetId d v = d\<lparr>Id := v\<rparr>"

datatype Severity = DiagError | DiagWarning

record Diagnostic =
  Severity :: Severity
  Summary :: string

type_synonym Diagnostics = "Diagnostic list"

definition Errorf :: "runtime \<Rightarrow> string \<Rightarrow> arg list \<Rightarrow> Diagnostics" where
  "Errorf R fmt args = [\<lparr>Severity = DiagError, Summary = Sprintf R fmt args\<rparr>]"

definition FromErr :: "error \<Rightarrow> Diagnostics" where
  "FromErr err = [\<lparr>Severity = DiagError, Summary = Error err\<rparr>]"

text \<open>
  The responses of the three upstream clients. A pointer field is an option, \<open>None\<close>
  for \<^verbatim>\<open>nil\<close>. The embedded \<^verbatim>\<open>autorest.Response\<close> is the parent record: a response that
  comes without an error carries its HTTP response, so \<^verbatim>\<open>Response.StatusCode\<close> is a
  plain field. A call returns its error or its value: the data source reads no value
  that comes with an error.
\<close>

record Response =
  StatusCode :: int

record Application = Response +
  ManagedResourceGroupID :: "string option"
  ID :: "string option"

record ConfigResponse =
  ClientConfig :: string

record ManagedCluster = Response +
  Fqdn :: "string option"

record Client =
  ManagedApplication_Get :: "string \<Rightarrow> string \<Rightarrow> error + Application"
  CustomResourceProvider_Config :: "string \<Rightarrow> error + ConfigResponse"
  ManagedClusters_Get :: "string \<Rightarrow> string \<Rightarrow> error + ManagedCluster"

subsection \<open>\<^verbatim>\<open>dataSourceAgentHelmConfigRead\<close>\<close>

text \<open>
  The read takes the resource data and the clients, and ends in one of two ways: it
  returns diagnostics (none on success), or it panics on a nil pointer. The result
  holds the resource data as the read left them and the upstream calls it made, in
  order.
\<close>

datatype call =
    ManagedApplicationGet string string
  | CustomResourceProviderConfig string
  | ManagedClustersGet string string

datatype outcome = Return Diagnostics | Panic

record result =
  data :: ResourceData
  calls :: "call list"
  outcome :: outcome

definition dataSourceAgentHelmConfigRead :: "runtime \<Rightarrow> Client \<Rightarrow> ResourceData \<Rightarrow> result" where
  "dataSourceAgentHelmConfigRead R meta d =
     (let resourceGroupName = d_Get d ''resource_group_name'';
          managedAppName = d_Get d ''managed_application_name'';
          c1 = [ManagedApplicationGet resourceGroupName managedAppName]
      in case ManagedApplication_Get meta resourceGroupName managedAppName of
        Inl err \<Rightarrow>
          \<lparr>data = d, calls = c1, outcome = Return (Errorf R
             ''failed to check for presence of existing HCS Cluster (Managed Application %q) (Resource Group %q): %+v''
             [String managedAppName, String resourceGroupName, Err err])\<rparr>
      | Inr app \<Rightarrow>
          if StatusCode app = 404 then
            \<lparr>data = d, calls = c1, outcome = Return (Errorf R
               ''[ERROR] no HCS Cluster found for (Managed Application %q) (Resource Group %q).''
               [String managedAppName, String resourceGroupName])\<rparr>
          else (case ManagedResourceGroupID app of
            None \<Rightarrow> \<lparr>data = d, calls = c1, outcome = Panic\<rparr>
          | Some managedAppManagedResourceGroupID \<Rightarrow>
              (let c2 = c1 @ [CustomResourceProviderConfig managedAppManagedResourceGroupID]
               in case CustomResourceProvider_Config meta managedAppManagedResourceGroupID of
                 Inl err \<Rightarrow>
                   \<lparr>data = d, calls = c2, outcome = Return (Errorf R
                      ''failed to get config for managed app: %+v'' [Err err])\<rparr>
               | Inr resp \<Rightarrow>
                   (case json_Unmarshal R (ClientConfig resp) of
                      Inl err \<Rightarrow>
                        \<lparr>data = d, calls = c2, outcome = Return (Errorf R
                           ''failed to json unmarshal Consul config %v'' [Err err])\<rparr>
                    | Inr consulConfig \<Rightarrow>
                        (let aksResourceGroup = d_Get d ''aks_resource_group'';
                             aksResourceGroup =
                               (if aksResourceGroup = [] then resourceGroupName else aksResourceGroup);
                             aksClusterName = d_Get d ''aks_cluster_name'';
                             c3 = c2 @ [ManagedClustersGet aksResourceGroup aksClusterName]
                         in case ManagedClusters_Get meta aksResourceGroup aksClusterName of
                           Inl err \<Rightarrow>
                             \<lparr>data = d, calls = c3, outcome = Return (Errorf R
                                ''failed to check for presence of existing AKS Cluster (Cluster name %q) (Resource Group %q): %+v''
                                [String aksClusterName, String aksResourceGroup, Err err])\<rparr>
                         | Inr mcResp \<Rightarrow>
                             if StatusCode mcResp = 404 then
                               \<lparr>data = d, calls = c3, outcome = Return (Errorf R
                                  ''[ERROR] no AKS Cluster found for (Cluster name %q) (Resource Group %q).''
                                  [String aksClusterName, String aksResourceGroup])\<rparr>
                             else (case Fqdn mcResp of
                               None \<Rightarrow> \<lparr>data = d, calls = c3, outcome = Panic\<rparr>
                             | Some fqdn \<Rightarrow>
                                 (case d_Set d ''config''
                                         (generateHelmConfig R managedAppName
                                            (Datacenter consulConfig) fqdn (RetryJoin consulConfig)) of
                                    Inl err \<Rightarrow> \<lparr>data = d, calls = c3, outcome = Return (FromErr err)\<rparr>
                                  | Inr d' \<Rightarrow>
                                      (case ID app of
                                         None \<Rightarrow> \<lparr>data = d', calls = c3, outcome = Panic\<rparr>
                                       | Some appID \<Rightarrow>
                                           \<lparr>data = d_SetId d' (appID @ ''/agent-helm-config''),
                                            calls = c3, outcome = Return []\<rparr>))))))))"

section \<open>Counting occurrences, and concrete inputs\<close>

text \<open>
  \<open>occurrences sub s\<close> counts the positions of \<open>s\<close> at which \<open>sub\<close> starts.
\<close>

fun occurrences :: "string \<Rightarrow> string \<Rightarrow> nat" where
  "occurrences sub [] = (if sub = [] then 1 else 0)"
| "occurrences sub (c # cs) = (if prefix sub (c # cs) then 1 else 0) + occurrences sub cs"

text \<open>
  The inputs of the concrete runs below. Their strings are pure ASCII, so the two
  Unicode fields of the runtime are never consulted; its JSON decoder knows one document.
\<close>

definition json_dc1 :: string where
  "json_dc1 =
     ''{'' @ [dquote] @ ''datacenter'' @ [dquote] @ '':'' @ [dquote] @ ''dc1'' @ [dquote] @ '','' @
     [dquote] @ ''retry_join'' @ [dquote] @ '':['' @ [dquote] @ ''1.2.3.4'' @ [dquote] @ '']}''"

definition connection_refused :: error where
  "connection_refused = GoError ''connection refused'' ''connection refused''"

definition plain_runtime :: runtime where
  "plain_runtime =
     \<lparr>lower_text = (\<lambda>s. s),
      escape_rune = (\<lambda>s. ([], 1)),
      json_Unmarshal = (\<lambda>s.
        if s = json_dc1 then Inr \<lparr>Datacenter = ''dc1'', RetryJoin = [''1.2.3.4'']\<rparr>
        else Inl (GoError ''unexpected end of JSON input'' ''unexpected end of JSON input''))\<rparr>"

text \<open>
  The resource data of a configuration that leaves \<^verbatim>\<open>aks_resource_group\<close> out, and of
  one that sets it.
\<close>

definition d_example :: ResourceData where
  "d_example =
     \<lparr>attrs = [''resource_group_name'' \<mapsto> ''rg'',
               ''managed_application_name'' \<mapsto> ''MyApp'',
               ''aks_cluster_name'' \<mapsto> ''aks''],
      Id = []\<rparr>"

definition d_override :: ResourceData where
  "d_override = d_example\<lparr>attrs := (attrs d_example)(''aks_resource_group'' \<mapsto> ''aks-rg'')\<rparr>"

text \<open>
  Upstream responses: a managed application with all its fields, the answer 404, and an
  application whose \<^verbatim>\<open>ID\<close> is nil; clients that return them.
\<close>

definition app_ok :: Application where
  "app_ok = \<lparr>StatusCode = 200, ManagedResourceGroupID = Some ''mrg'', ID = Some ''/apps/MyApp''\<rparr>"

definition app_404 :: Application where
  "app_404 = \<lparr>StatusCode = 404, ManagedResourceGroupID = None, ID = None\<rparr>"

definition app_nil_id :: Application where
  "app_nil_id = \<lparr>StatusCode = 200, ManagedResourceGroupID = Some ''mrg'', ID = None\<rparr>"

definition cluster_ok :: ManagedCluster where
  "cluster_ok = \<lparr>StatusCode = 200, Fqdn = Some ''cluster.example.com''\<rparr>"

definition meta_ok :: Client where
  "meta_ok =
     \<lparr>ManagedApplication_Get = (\<lambda>rg n. Inr app_ok),
      CustomResourceProvider_Config = (\<lambda>g. Inr \<lparr>ClientConfig = json_dc1\<rparr>),
      ManagedClusters_Get = (\<lambda>rg n. Inr cluster_ok)\<rparr>"

definition meta_404 :: Client where
  "meta_404 = meta_ok\<lparr>ManagedApplication_Get := (\<lambda>rg n. Inr app_404)\<rparr>"

definition meta_down :: Client where
  "meta_down = meta_ok\<lparr>ManagedApplication_Get := (\<lambda>rg n. Inl connection_refused)\<rparr>"

definition meta_nil_id :: Client where
  "meta_nil_id = meta_ok\<lparr>ManagedApplication_Get := (\<lambda>rg n. Inr app_nil_id)\<rparr>"

definition meta_config_down :: Client where
  "meta_config_down =
     meta_nil_id\<lparr>CustomResourceProvider_Config := (\<lambda>g. Inl connection_refused)\<rparr>"

section \<open>Properties of the rendering\<close>

subsection \<open>What \<^verbatim>\<open>Sprintf\<close> does with the template\<close>

lemma doPrintf_char: "c \<noteq> CHR ''%'' \<Longrightarrow> doPrintf R (c # fmt) args = c # doPrintf R fmt args"
  by simp

lemma doPrintf_s: "doPrintf R (CHR ''%'' # CHR ''s'' # fmt) (String a # as) = a @ doPrintf R fmt as"
  by (simp add: printArg_def fmtString_def)

lemma doPrintf_q: "doPrintf R (CHR ''%'' # CHR ''q'' # fmt) (String a # as) = Quote R a @ doPrintf R fmt as"
  by (simp add: printArg_def fmtString_def)

lemma doPrintf_plus_v: "doPrintf R (CHR ''%'' # CHR ''+'' # CHR ''v'' # fmt) (Err e # as) = Detail e @ doPrintf R fmt as"
  by (simp add: printArg_def)

lemma doPrintf_done: "doPrintf R [] [] = []"
  by simp

lemma Sprintf_helmConfigTemplate:
  "Sprintf R helmConfigTemplate
     [String a1, String a2, String a3, String a4, String a5, String a6, String a7] =
     ''global:\<newline>  enabled: false\<newline>  name: consul\<newline>  datacenter: '' @ a1 @
     ''\<newline>  acls:\<newline>    manageSystemACLs: true\<newline>    bootstrapToken:\<newline>      secretName: '' @ a2 @
     ''-bootstrap-token\<newline>      secretKey: token\<newline>  gossipEncryption:\<newline>    secretName: '' @ a3 @
     ''-hcs\<newline>    secretKey: gossipEncryptionKey\<newline>  tls:\<newline>    enabled: true\<newline>    enableAutoEncrypt: true\<newline>    caCert:\<newline>      secretName: '' @ a4 @
     ''-hcs\<newline>      secretKey: caCert\<newline>externalServers:\<newline>  enabled: true\<newline>  hosts: '' @ a5 @
     ''\<newline>  httpsPort: 443\<newline>  useSystemRoots: true\<newline>  k8sAuthMethodHost: https://'' @ a6 @
     '':443\<newline>client:\<newline>  enabled: true\<newline>  # If you are using Kubenet in your AKS cluster (the default network),\<newline>  # uncomment the line below.\<newline>  # exposeGossipPorts: true\<newline>  join: '' @ a7 @
     ''\<newline>connectInject:\<newline>  enabled: true''"
  unfolding Sprintf_def
  by (simp add: helmConfigTemplate_def doPrintf_char doPrintf_s doPrintf_done del: doPrintf.simps)

lemma generateHelmConfig_rendered:
  "generateHelmConfig R name datacenter fqdn retryJoin =
     ''global:\<newline>  enabled: false\<newline>  name: consul\<newline>  datacenter: '' @ datacenter @
     ''\<newline>  acls:\<newline>    manageSystemACLs: true\<newline>    bootstrapToken:\<newline>      secretName: '' @ ToLower R name @
     ''-bootstrap-token\<newline>      secretKey: token\<newline>  gossipEncryption:\<newline>    secretName: '' @ ToLower R name @
     ''-hcs\<newline>    secretKey: gossipEncryptionKey\<newline>  tls:\<newline>    enabled: true\<newline>    enableAutoEncrypt: true\<newline>    caCert:\<newline>      secretName: '' @ ToLower R name @
     ''-hcs\<newline>      secretKey: caCert\<newline>externalServers:\<newline>  enabled: true\<newline>  hosts: '' @ Replace (Sprintf R ''%q'' [Strings retryJoin]) [dquote] [squote] (- 1) @
     ''\<newline>  httpsPort: 443\<newline>  useSystemRoots: true\<newline>  k8sAuthMethodHost: https://'' @ fqdn @
     '':443\<newline>client:\<newline>  enabled: true\<newline>  # If you are using Kubenet in your AKS cluster (the default network),\<newline>  # uncomment the line below.\<newline>  # exposeGossipPorts: true\<newline>  join: '' @ Replace (Sprintf R ''%q'' [Strings retryJoin]) [dquote] [squote] (- 1) @
     ''\<newline>connectInject:\<newline>  enabled: true''"
  unfolding generateHelmConfig_def Let_def Sprintf_helmConfigTemplate ..

lemma Sprintf_q_slice: "Sprintf R ''%q'' [Strings xs] = ''['' @ elements (Quote R) xs @ '']''"
proof -
  have "fmtString R (CHR ''q'') = Quote R"
    by (rule ext) (simp add: fmtString_def)
  then show ?thesis
    by (simp add: Sprintf_def printArg_def)
qed

lemma token_empty: "Replace (Sprintf R ''%q'' [Strings []]) [dquote] [squote] (- 1) = ''[]''"
  by (simp add: Sprintf_q_slice dquote_def squote_def)

lemma token_one:
  "Replace (Sprintf R ''%q'' [Strings [''1.2.3.4'']]) [dquote] [squote] (- 1) = ''['1.2.3.4']''"
  by (simp add: Sprintf_q_slice Quote_def appendEscapedRune_def byte_def
        dquote_def squote_def backslash_def)

lemma token_two:
  "Replace (Sprintf R ''%q'' [Strings [''10.0.0.1'', ''10.0.0.2'']]) [dquote] [squote] (- 1) =
     ''['10.0.0.1' '10.0.0.2']''"
  by (simp add: Sprintf_q_slice Quote_def appendEscapedRune_def byte_def
        dquote_def squote_def backslash_def)

lemma ToLower_MyApp: "ToLower R ''MyApp'' = ''myapp''"
  by code_simp

lemma sublist_here: "sublist xs (xs @ r)"
  by (rule sublist_append_rightI)

lemma sublist_skip: "sublist xs r \<Longrightarrow> sublist xs (p @ r)"
  unfolding sublist_def by (metis append.assoc)

subsection \<open>The list of join addresses\<close>

text \<open>
  C1. With the join addresses \<^verbatim>\<open>10.0.0.1\<close> and \<^verbatim>\<open>10.0.0.2\<close>, the token that
  \<^verbatim>\<open>generateHelmConfig\<close> builds wraps each address in single quotes and separates the
  two with one space, not with a comma: it is \<^verbatim>\<open>['10.0.0.1' '10.0.0.2']\<close>, whatever the
  other inputs are, and this is the text that follows \<^verbatim>\<open>hosts:\<close> and \<^verbatim>\<open>join:\<close>.
\<close>

theorem two_addresses_space_separated:
  "Replace (Sprintf R ''%q'' [Strings [''10.0.0.1'', ''10.0.0.2'']]) [dquote] [squote] (- 1)
     = ''['10.0.0.1' '10.0.0.2']''
   \<and> ''['10.0.0.1' '10.0.0.2']'' \<noteq> ''['10.0.0.1', '10.0.0.2']''
   \<and> generateHelmConfig R name datacenter fqdn [''10.0.0.1'', ''10.0.0.2''] =
     ''global:\<newline>  enabled: false\<newline>  name: consul\<newline>  datacenter: '' @ datacenter @
     ''\<newline>  acls:\<newline>    manageSystemACLs: true\<newline>    bootstrapToken:\<newline>      secretName: '' @ ToLower R name @
     ''-bootstrap-token\<newline>      secretKey: token\<newline>  gossipEncryption:\<newline>    secretName: '' @ ToLower R name @
     ''-hcs\<newline>    secretKey: gossipEncryptionKey\<newline>  tls:\<newline>    enabled: true\<newline>    enableAutoEncrypt: true\<newline>    caCert:\<newline>      secretName: '' @ ToLower R name @
     ''-hcs\<newline>      secretKey: caCert\<newline>externalServers:\<newline>  enabled: true\<newline>  hosts: '' @ ''['10.0.0.1' '10.0.0.2']'' @
     ''\<newline>  httpsPort: 443\<newline>  useSystemRoots: true\<newline>  k8sAuthMethodHost: https://'' @ fqdn @
     '':443\<newline>client:\<newline>  enabled: true\<newline>  # If you are using Kubenet in your AKS cluster (the default network),\<newline>  # uncomment the line below.\<newline>  # exposeGossipPorts: true\<newline>  join: '' @ ''['10.0.0.1' '10.0.0.2']'' @
     ''\<newline>connectInject:\<newline>  enabled: true''"
  unfolding generateHelmConfig_rendered token_two by simp

text \<open>
  C5. With no join address the token is the empty bracket pair: the document has the
  keys \<^verbatim>\<open>hosts\<close> and \<^verbatim>\<open>join\<close>, each with the value \<^verbatim>\<open>[]\<close>, whatever the other inputs
  are.
\<close>

theorem no_address_renders_empty_list:
  "generateHelmConfig R name datacenter fqdn [] =
     ''global:\<newline>  enabled: false\<newline>  name: consul\<newline>  datacenter: '' @ datacenter @
     ''\<newline>  acls:\<newline>    manageSystemACLs: true\<newline>    bootstrapToken:\<newline>      secretName: '' @ ToLower R name @
     ''-bootstrap-token\<newline>      secretKey: token\<newline>  gossipEncryption:\<newline>    secretName: '' @ ToLower R name @
     ''-hcs\<newline>    secretKey: gossipEncryptionKey\<newline>  tls:\<newline>    enabled: true\<newline>    enableAutoEncrypt: true\<newline>    caCert:\<newline>      secretName: '' @ ToLower R name @
     ''-hcs\<newline>      secretKey: caCert\<newline>externalServers:\<newline>  enabled: true\<newline>  hosts: '' @ ''[]'' @
     ''\<newline>  httpsPort: 443\<newline>  useSystemRoots: true\<newline>  k8sAuthMethodHost: https://'' @ fqdn @
     '':443\<newline>client:\<newline>  enabled: true\<newline>  # If you are using Kubenet in your AKS cluster (the default network),\<newline>  # uncomment the line below.\<newline>  # exposeGossipPorts: true\<newline>  join: '' @ ''[]'' @
     ''\<newline>connectInject:\<newline>  enabled: true''"
  unfolding generateHelmConfig_rendered token_empty ..

text \<open>
  C3. For every list of join addresses and all other inputs, the document ends with the
  \<^verbatim>\<open>externalServers\<close> and \<^verbatim>\<open>client\<close> blocks of the template, and the text put after
  \<^verbatim>\<open>hosts:\<close> is the text put after \<^verbatim>\<open>join:\<close>: the quoted list with every double quote
  replaced by a single quote.
\<close>

theorem hosts_and_join_same_token:
  "\<exists>front token.
     token = Replace (Sprintf R ''%q'' [Strings retryJoin]) [dquote] [squote] (- 1) \<and>
     generateHelmConfig R name datacenter fqdn retryJoin =
       front @ ''externalServers:\<newline>  enabled: true\<newline>  hosts: '' @ token @
     ''\<newline>  httpsPort: 443\<newline>  useSystemRoots: true\<newline>  k8sAuthMethodHost: https://'' @ fqdn @
     '':443\<newline>client:\<newline>  enabled: true\<newline>  # If you are using Kubenet in your AKS cluster (the default network),\<newline>  # uncomment the line below.\<newline>  # exposeGossipPorts: true\<newline>  join: '' @ token @
     ''\<newline>connectInject:\<newline>  enabled: true''"
proof -
  have "''-hcs\<newline>      secretKey: caCert\<newline>externalServers:\<newline>  enabled: true\<newline>  hosts: '' =
        ''-hcs\<newline>      secretKey: caCert\<newline>'' @ ''externalServers:\<newline>  enabled: true\<newline>  hosts: ''"
    by simp
  then show ?thesis
    unfolding generateHelmConfig_rendered by (metis append.assoc)
qed

subsection \<open>The secret names\<close>

lemma caCert_site:
  "''-hcs\<newline>      secretKey: caCert\<newline>externalServers:\<newline>  enabled: true\<newline>  hosts: '' =
   ''-hcs\<newline>      secretKey: caCert\<newline>'' @ ''externalServers:\<newline>  enabled: true\<newline>  hosts: ''"
  by simp

lemma generateHelmConfig_head:
  "\<exists>rest. generateHelmConfig R name datacenter fqdn retryJoin =
       ''global:\<newline>  enabled: false\<newline>  name: consul\<newline>  datacenter: '' @ datacenter @
       ''\<newline>  acls:\<newline>    manageSystemACLs: true\<newline>    bootstrapToken:\<newline>      secretName: '' @ ToLower R name @
       ''-bootstrap-token\<newline>      secretKey: token\<newline>  gossipEncryption:\<newline>    secretName: '' @ ToLower R name @
       ''-hcs\<newline>    secretKey: gossipEncryptionKey\<newline>  tls:\<newline>    enabled: true\<newline>    enableAutoEncrypt: true\<newline>    caCert:\<newline>      secretName: '' @ ToLower R name @
       ''-hcs\<newline>      secretKey: caCert\<newline>'' @ rest"
  unfolding generateHelmConfig_rendered caCert_site by (metis append.assoc)

lemma secretName_sites: "occurrences ''secretName: %s'' helmConfigTemplate = 3"
  unfolding helmConfigTemplate_def by code_simp

lemma render_MyApp:
  "generateHelmConfig R ''MyApp'' ''dc1'' ''cluster.example.com'' [''1.2.3.4''] =
     ''global:\<newline>  enabled: false\<newline>  name: consul\<newline>  datacenter: dc1\<newline>  acls:\<newline>    manageSystemACLs: true\<newline>    bootstrapToken:\<newline>      secretName: myapp-bootstrap-token\<newline>      secretKey: token\<newline>  gossipEncryption:\<newline>    secretName: myapp-hcs\<newline>    secretKey: gossipEncryptionKey\<newline>  tls:\<newline>    enabled: true\<newline>    enableAutoEncrypt: true\<newline>    caCert:\<newline>      secretName: myapp-hcs\<newline>      secretKey: caCert\<newline>externalServers:\<newline>  enabled: true\<newline>  hosts: ['1.2.3.4']\<newline>  httpsPort: 443\<newline>  useSystemRoots: true\<newline>  k8sAuthMethodHost: https://cluster.example.com:443\<newline>client:\<newline>  enabled: true\<newline>  # If you are using Kubenet in your AKS cluster (the default network),\<newline>  # uncomment the line below.\<newline>  # exposeGossipPorts: true\<newline>  join: ['1.2.3.4']\<newline>connectInject:\<newline>  enabled: true''"
  unfolding generateHelmConfig_rendered token_one ToLower_MyApp by simp

lemma byte_lower_byte:
  "byte (lower_byte c) = (if 65 \<le> byte c \<and> byte c \<le> 90 then byte c + 32 else byte c)"
  by (simp add: lower_byte_def byte_def)

lemma ToLower_ascii_bytes:
  "isASCII name \<Longrightarrow> list_all2 (\<lambda>c l. byte l = (if 65 \<le> byte c \<and> byte c \<le> 90 then byte c + 32 else byte c)) name (ToLower R name)"
  by (simp add: ToLower_def list_all2_map2 list.rel_refl byte_lower_byte)

lemma ToLower_ascii_no_upper:
  "isASCII name \<Longrightarrow> list_all (\<lambda>l. \<not> (65 \<le> byte l \<and> byte l \<le> 90)) (ToLower R name)"
  by (simp add: ToLower_def list_all_iff byte_lower_byte)

text \<open>
  C4. The template has three places where a secret name is formed, and the document
  that \<^verbatim>\<open>generateHelmConfig\<close> returns is the template with its seven values filled in:
  for every application name (the empty one too) the lowercased name stands before
  \<^verbatim>\<open>-bootstrap-token\<close> once and before \<^verbatim>\<open>-hcs\<close> twice, the same string all three
  times, and nowhere else does the document form a secret name. For a name of ASCII
  bytes the lowercased name is the name with each of \<^verbatim>\<open>A\<close> to \<^verbatim>\<open>Z\<close> moved up by 32 and
  every other byte kept, so it has no upper-case letter left.
\<close>

theorem secret_names_use_lowercased_name:
  "occurrences ''secretName: %s'' helmConfigTemplate = 3 \<and>
   generateHelmConfig R name datacenter fqdn retryJoin =
     ''global:\<newline>  enabled: false\<newline>  name: consul\<newline>  datacenter: '' @ datacenter @
     ''\<newline>  acls:\<newline>    manageSystemACLs: true\<newline>    bootstrapToken:\<newline>      secretName: '' @ ToLower R name @
     ''-bootstrap-token\<newline>      secretKey: token\<newline>  gossipEncryption:\<newline>    secretName: '' @ ToLower R name @
     ''-hcs\<newline>    secretKey: gossipEncryptionKey\<newline>  tls:\<newline>    enabled: true\<newline>    enableAutoEncrypt: true\<newline>    caCert:\<newline>      secretName: '' @ ToLower R name @
     ''-hcs\<newline>      secretKey: caCert\<newline>externalServers:\<newline>  enabled: true\<newline>  hosts: '' @ Replace (Sprintf R ''%q'' [Strings retryJoin]) [dquote] [squote] (- 1) @
     ''\<newline>  httpsPort: 443\<newline>  useSystemRoots: true\<newline>  k8sAuthMethodHost: https://'' @ fqdn @
     '':443\<newline>client:\<newline>  enabled: true\<newline>  # If you are using Kubenet in your AKS cluster (the default network),\<newline>  # uncomment the line below.\<newline>  # exposeGossipPorts: true\<newline>  join: '' @ Replace (Sprintf R ''%q'' [Strings retryJoin]) [dquote] [squote] (- 1) @
     ''\<newline>connectInject:\<newline>  enabled: true'' \<and>
   (isASCII name \<longrightarrow>
      list_all2 (\<lambda>c l. byte l = (if 65 \<le> byte c \<and> byte c \<le> 90 then byte c + 32 else byte c))
        name (ToLower R name) \<and>
      list_all (\<lambda>l. \<not> (65 \<le> byte l \<and> byte l \<le> 90)) (ToLower R name))"
  using secretName_sites generateHelmConfig_rendered ToLower_ascii_bytes ToLower_ascii_no_upper
  by blast

theorem secret_names_use_lowercased_name_witness:
  "isASCII ''MyApp'' \<and>
   ToLower plain_runtime ''MyApp'' = ''myapp'' \<and>
   list_all2 (\<lambda>c l. byte l = (if 65 \<le> byte c \<and> byte c \<le> 90 then byte c + 32 else byte c))
     ''MyApp'' ''myapp'' \<and>
   occurrences ''secretName: myapp-'' (generateHelmConfig plain_runtime ''MyApp'' ''dc1'' ''cluster.example.com'' [''1.2.3.4'']) = 3 \<and>
   occurrences ''secretName: '' (generateHelmConfig plain_runtime ''MyApp'' ''dc1'' ''cluster.example.com'' [''1.2.3.4'']) = 3"
proof -
  have ascii: "isASCII ''MyApp''"
    by (simp add: isASCII_def byte_def)
  have lower: "ToLower plain_runtime ''MyApp'' = ''myapp''"
    by (rule ToLower_MyApp)
  have three: "occurrences ''secretName: myapp-'' (generateHelmConfig plain_runtime ''MyApp'' ''dc1'' ''cluster.example.com'' [''1.2.3.4'']) = 3"
    unfolding render_MyApp by code_simp
  have no_more: "occurrences ''secretName: '' (generateHelmConfig plain_runtime ''MyApp'' ''dc1'' ''cluster.example.com'' [''1.2.3.4'']) = 3"
    unfolding render_MyApp by code_simp
  from secret_names_use_lowercased_name
         [of plain_runtime "''MyApp''" "''dc1''" "''cluster.example.com''" "[''1.2.3.4'']"] ascii
  have "list_all2 (\<lambda>c l. byte l = (if 65 \<le> byte c \<and> byte c \<le> 90 then byte c + 32 else byte c))
          ''MyApp'' (ToLower plain_runtime ''MyApp'')"
    by blast
  with ascii lower three no_more show ?thesis
    by simp
qed

text \<open>
  C8. The prefix of the three secret names is fixed by the application name alone: one
  string \<open>p\<close>, the lowercased name, stands at the three places in the document of every
  invocation with that name, whatever its datacenter, its cluster name and its join
  addresses are.
\<close>

theorem secret_prefix_depends_on_name_only:
  "\<exists>p. p = ToLower R name \<and>
     (\<forall>datacenter fqdn retryJoin. \<exists>rest.
        generateHelmConfig R name datacenter fqdn retryJoin =
          ''global:\<newline>  enabled: false\<newline>  name: consul\<newline>  datacenter: '' @ datacenter @
          ''\<newline>  acls:\<newline>    manageSystemACLs: true\<newline>    bootstrapToken:\<newline>      secretName: '' @ p @
          ''-bootstrap-token\<newline>      secretKey: token\<newline>  gossipEncryption:\<newline>    secretName: '' @ p @
          ''-hcs\<newline>    secretKey: gossipEncryptionKey\<newline>  tls:\<newline>    enabled: true\<newline>    enableAutoEncrypt: true\<newline>    caCert:\<newline>      secretName: '' @ p @
          ''-hcs\<newline>      secretKey: caCert\<newline>'' @ rest)"
  using generateHelmConfig_head by blast

subsection \<open>The end-to-end scenario\<close>

lemma render_MyApp_split:
  "generateHelmConfig R ''MyApp'' ''dc1'' ''cluster.example.com'' [''1.2.3.4''] =
     ''global:\<newline>  enabled: false\<newline>  name: consul\<newline>  '' @
     ''datacenter: dc1'' @
     ''\<newline>  acls:\<newline>    manageSystemACLs: true\<newline>    bootstrapToken:\<newline>      '' @
     ''secretName: myapp-bootstrap-token'' @
     ''\<newline>      secretKey: token\<newline>  gossipEncryption:\<newline>    secretName: myapp-hcs\<newline>    secretKey: gossipEncryptionKey\<newline>  tls:\<newline>    enabled: true\<newline>    enableAutoEncrypt: true\<newline>    caCert:\<newline>      secretName: myapp-hcs\<newline>      secretKey: caCert\<newline>externalServers:\<newline>  enabled: true\<newline>  '' @
     ''hosts: ['1.2.3.4']'' @
     ''\<newline>  httpsPort: 443\<newline>  useSystemRoots: true\<newline>  '' @
     ''k8sAuthMethodHost: https://cluster.example.com:443'' @
     ''\<newline>client:\<newline>  enabled: true\<newline>  # If you are using Kubenet in your AKS cluster (the default network),\<newline>  # uncomment the line below.\<newline>  # exposeGossipPorts: true\<newline>  '' @
     ''join: ['1.2.3.4']'' @
     ''\<newline>connectInject:\<newline>  enabled: true''"
  unfolding render_MyApp by simp

text \<open>
  C2. For the application \<^verbatim>\<open>MyApp\<close>, the datacenter \<^verbatim>\<open>dc1\<close>, the cluster
  \<^verbatim>\<open>cluster.example.com\<close> and the one join address \<^verbatim>\<open>1.2.3.4\<close>, the document contains
  the six texts of the scenario, and \<^verbatim>\<open>secretName: myapp-hcs\<close> occurs exactly twice.
\<close>

theorem end_to_end_MyApp:
  "sublist ''datacenter: dc1'' (generateHelmConfig R ''MyApp'' ''dc1'' ''cluster.example.com'' [''1.2.3.4'']) \<and>
   sublist ''secretName: myapp-bootstrap-token'' (generateHelmConfig R ''MyApp'' ''dc1'' ''cluster.example.com'' [''1.2.3.4'']) \<and>
   occurrences ''secretName: myapp-hcs'' (generateHelmConfig R ''MyApp'' ''dc1'' ''cluster.example.com'' [''1.2.3.4'']) = 2 \<and>
   sublist ''hosts: ['1.2.3.4']'' (generateHelmConfig R ''MyApp'' ''dc1'' ''cluster.example.com'' [''1.2.3.4'']) \<and>
   sublist ''k8sAuthMethodHost: https://cluster.example.com:443'' (generateHelmConfig R ''MyApp'' ''dc1'' ''cluster.example.com'' [''1.2.3.4'']) \<and>
   sublist ''join: ['1.2.3.4']'' (generateHelmConfig R ''MyApp'' ''dc1'' ''cluster.example.com'' [''1.2.3.4''])"
proof -
  let ?out = "generateHelmConfig R ''MyApp'' ''dc1'' ''cluster.example.com'' [''1.2.3.4'']"
  have dc: "sublist ''datacenter: dc1'' ?out"
    unfolding render_MyApp_split by (rule sublist_here | rule sublist_skip)+
  have token: "sublist ''secretName: myapp-bootstrap-token'' ?out"
    unfolding render_MyApp_split by (rule sublist_here | rule sublist_skip)+
  have hcs: "occurrences ''secretName: myapp-hcs'' ?out = 2"
    unfolding render_MyApp by code_simp
  have hosts: "sublist ''hosts: ['1.2.3.4']'' ?out"
    unfolding render_MyApp_split by (rule sublist_here | rule sublist_skip)+
  have host: "sublist ''k8sAuthMethodHost: https://cluster.example.com:443'' ?out"
    unfolding render_MyApp_split by (rule sublist_here | rule sublist_skip)+
  have join: "sublist ''join: ['1.2.3.4']'' ?out"
    unfolding render_MyApp_split by (rule sublist_here | rule sublist_skip)+
  from dc token hcs hosts host join show ?thesis
    by blast
qed

section \<open>Properties of the read\<close>

subsection \<open>The ten ways through \<^verbatim>\<open>dataSourceAgentHelmConfigRead\<close>\<close>

lemma d_Set_config: "d_Set d ''config'' v = Inr (d\<lparr>attrs := (attrs d)(''config'' \<mapsto> v)\<rparr>)"
  by (simp add: d_Set_def dataSourceAgentHelmConfig_def)

lemma Errorf_not_nil: "Errorf R fmt args \<noteq> []"
  by (simp add: Errorf_def)

lemma read_app_error:
  assumes "ManagedApplication_Get meta (d_Get d ''resource_group_name'') (d_Get d ''managed_application_name'') = Inl err"
  shows "dataSourceAgentHelmConfigRead R meta d =
     \<lparr>data = d, calls = [ManagedApplicationGet (d_Get d ''resource_group_name'') (d_Get d ''managed_application_name'')],
       outcome = Return (Errorf R
         ''failed to check for presence of existing HCS Cluster (Managed Application %q) (Resource Group %q): %+v''
         [String (d_Get d ''managed_application_name''), String (d_Get d ''resource_group_name''), Err err])\<rparr>"
  using assms by (simp add: dataSourceAgentHelmConfigRead_def Let_def)

lemma read_app_404:
  assumes "ManagedApplication_Get meta (d_Get d ''resource_group_name'') (d_Get d ''managed_application_name'') = Inr app"
    and "StatusCode app = 404"
  shows "dataSourceAgentHelmConfigRead R meta d =
     \<lparr>data = d, calls = [ManagedApplicationGet (d_Get d ''resource_group_name'') (d_Get d ''managed_application_name'')],
       outcome = Return (Errorf R
         ''[ERROR] no HCS Cluster found for (Managed Application %q) (Resource Group %q).''
         [String (d_Get d ''managed_application_name''), String (d_Get d ''resource_group_name'')])\<rparr>"
  using assms by (simp add: dataSourceAgentHelmConfigRead_def Let_def)

lemma read_app_nil_group:
  assumes "ManagedApplication_Get meta (d_Get d ''resource_group_name'') (d_Get d ''managed_application_name'') = Inr app"
    and "StatusCode app \<noteq> 404"
    and "ManagedResourceGroupID app = None"
  shows "dataSourceAgentHelmConfigRead R meta d =
     \<lparr>data = d, calls = [ManagedApplicationGet (d_Get d ''resource_group_name'') (d_Get d ''managed_application_name'')],
       outcome = Panic\<rparr>"
  using assms by (simp add: dataSourceAgentHelmConfigRead_def Let_def)

lemma read_config_error:
  assumes "ManagedApplication_Get meta (d_Get d ''resource_group_name'') (d_Get d ''managed_application_name'') = Inr app"
    and "StatusCode app \<noteq> 404"
    and "ManagedResourceGroupID app = Some mrg"
    and "CustomResourceProvider_Config meta mrg = Inl err"
  shows "dataSourceAgentHelmConfigRead R meta d =
     \<lparr>data = d, calls = [ManagedApplicationGet (d_Get d ''resource_group_name'') (d_Get d ''managed_application_name''), CustomResourceProviderConfig mrg],
       outcome = Return (Errorf R ''failed to get config for managed app: %+v'' [Err err])\<rparr>"
  using assms by (simp add: dataSourceAgentHelmConfigRead_def Let_def)

lemma read_json_error:
  assumes "ManagedApplication_Get meta (d_Get d ''resource_group_name'') (d_Get d ''managed_application_name'') = Inr app"
    and "StatusCode app \<noteq> 404"
    and "ManagedResourceGroupID app = Some mrg"
    and "CustomResourceProvider_Config meta mrg = Inr resp"
    and "json_Unmarshal R (ClientConfig resp) = Inl err"
  shows "dataSourceAgentHelmConfigRead R meta d =
     \<lparr>data = d, calls = [ManagedApplicationGet (d_Get d ''resource_group_name'') (d_Get d ''managed_application_name''), CustomResourceProviderConfig mrg],
       outcome = Return (Errorf R ''failed to json unmarshal Consul config %v'' [Err err])\<rparr>"
  using assms by (simp add: dataSourceAgentHelmConfigRead_def Let_def)

lemma read_cluster_error:
  assumes "ManagedApplication_Get meta (d_Get d ''resource_group_name'') (d_Get d ''managed_application_name'') = Inr app"
    and "StatusCode app \<noteq> 404"
    and "ManagedResourceGroupID app = Some mrg"
    and "CustomResourceProvider_Config meta mrg = Inr resp"
    and "json_Unmarshal R (ClientConfig resp) = Inr consulConfig"
    and "ManagedClusters_Get meta (if d_Get d ''aks_resource_group'' = [] then d_Get d ''resource_group_name'' else d_Get d ''aks_resource_group'') (d_Get d ''aks_cluster_name'') = Inl err"
  shows "dataSourceAgentHelmConfigRead R meta d =
     \<lparr>data = d, calls = [ManagedApplicationGet (d_Get d ''resource_group_name'') (d_Get d ''managed_application_name''), CustomResourceProviderConfig mrg,
        ManagedClustersGet (if d_Get d ''aks_resource_group'' = [] then d_Get d ''resource_group_name'' else d_Get d ''aks_resource_group'') (d_Get d ''aks_cluster_name'')],
       outcome = Return (Errorf R
         ''failed to check for presence of existing AKS Cluster (Cluster name %q) (Resource Group %q): %+v''
         [String (d_Get d ''aks_cluster_name''), String (if d_Get d ''aks_resource_group'' = [] then d_Get d ''resource_group_name'' else d_Get d ''aks_resource_group''), Err err])\<rparr>"
  using assms by (simp add: dataSourceAgentHelmConfigRead_def Let_def)

lemma read_cluster_404:
  assumes "ManagedApplication_Get meta (d_Get d ''resource_group_name'') (d_Get d ''managed_application_name'') = Inr app"
    and "StatusCode app \<noteq> 404"
    and "ManagedResourceGroupID app = Some mrg"
    and "CustomResourceProvider_Config meta mrg = Inr resp"
    and "json_Unmarshal R (ClientConfig resp) = Inr consulConfig"
    and "ManagedClusters_Get meta (if d_Get d ''aks_resource_group'' = [] then d_Get d ''resource_group_name'' else d_Get d ''aks_resource_group'') (d_Get d ''aks_cluster_name'') = Inr mcResp"
    and "StatusCode mcResp = 404"
  shows "dataSourceAgentHelmConfigRead R meta d =
     \<lparr>data = d, calls = [ManagedApplicationGet (d_Get d ''resource_group_name'') (d_Get d ''managed_application_name''), CustomResourceProviderConfig mrg,
        ManagedClustersGet (if d_Get d ''aks_resource_group'' = [] then d_Get d ''resource_group_name'' else d_Get d ''aks_resource_group'') (d_Get d ''aks_cluster_name'')],
       outcome = Return (Errorf R
         ''[ERROR] no AKS Cluster found for (Cluster name %q) (Resource Group %q).''
         [String (d_Get d ''aks_cluster_name''), String (if d_Get d ''aks_resource_group'' = [] then d_Get d ''resource_group_name'' else d_Get d ''aks_resource_group'')])\<rparr>"
  using assms by (simp add: dataSourceAgentHelmConfigRead_def Let_def)

lemma read_cluster_nil_fqdn:
  assumes "ManagedApplication_Get meta (d_Get d ''resource_group_name'') (d_Get d ''managed_application_name'') = Inr app"
    and "StatusCode app \<noteq> 404"
    and "ManagedResourceGroupID app = Some mrg"
    and "CustomResourceProvider_Config meta mrg = Inr resp"
    and "json_Unmarshal R (ClientConfig resp) = Inr consulConfig"
    and "ManagedClusters_Get meta (if d_Get d ''aks_resource_group'' = [] then d_Get d ''resource_group_name'' else d_Get d ''aks_resource_group'') (d_Get d ''aks_cluster_name'') = Inr mcResp"
    and "StatusCode mcResp \<noteq> 404"
    and "Fqdn mcResp = None"
  shows "dataSourceAgentHelmConfigRead R meta d =
     \<lparr>data = d, calls = [ManagedApplicationGet (d_Get d ''resource_group_name'') (d_Get d ''managed_application_name''), CustomResourceProviderConfig mrg,
        ManagedClustersGet (if d_Get d ''aks_resource_group'' = [] then d_Get d ''resource_group_name'' else d_Get d ''aks_resource_group'') (d_Get d ''aks_cluster_name'')],
       outcome = Panic\<rparr>"
  using assms by (simp add: dataSourceAgentHelmConfigRead_def Let_def)

lemma read_app_nil_id:
  assumes "ManagedApplication_Get meta (d_Get d ''resource_group_name'') (d_Get d ''managed_application_name'') = Inr app"
    and "StatusCode app \<noteq> 404"
    and "ManagedResourceGroupID app = Some mrg"
    and "CustomResourceProvider_Config meta mrg = Inr resp"
    and "json_Unmarshal R (ClientConfig resp) = Inr consulConfig"
    and "ManagedClusters_Get meta (if d_Get d ''aks_resource_group'' = [] then d_Get d ''resource_group_name'' else d_Get d ''aks_resource_group'') (d_Get d ''aks_cluster_name'') = Inr mcResp"
    and "StatusCode mcResp \<noteq> 404"
    and "Fqdn mcResp = Some fqdn"
    and "ID app = None"
  shows "dataSourceAgentHelmConfigRead R meta d =
     \<lparr>data = d\<lparr>attrs := (attrs d)(''config'' \<mapsto>
         generateHelmConfig R (d_Get d ''managed_application_name'') (Datacenter consulConfig) fqdn (RetryJoin consulConfig))\<rparr>, calls = [ManagedApplicationGet (d_Get d ''resource_group_name'') (d_Get d ''managed_application_name''), CustomResourceProviderConfig mrg,
        ManagedClustersGet (if d_Get d ''aks_resource_group'' = [] then d_Get d ''resource_group_name'' else d_Get d ''aks_resource_group'') (d_Get d ''aks_cluster_name'')],
       outcome = Panic\<rparr>"
  using assms by (simp add: dataSourceAgentHelmConfigRead_def Let_def d_Set_config d_SetId_def)

lemma read_success:
  assumes "ManagedApplication_Get meta (d_Get d ''resource_group_name'') (d_Get d ''managed_application_name'') = Inr app"
    and "StatusCode app \<noteq> 404"
    and "ManagedResourceGroupID app = Some mrg"
    and "CustomResourceProvider_Config meta mrg = Inr resp"
    and "json_Unmarshal R (ClientConfig resp) = Inr consulConfig"
    and "ManagedClusters_Get meta (if d_Get d ''aks_resource_group'' = [] then d_Get d ''resource_group_name'' else d_Get d ''aks_resource_group'') (d_Get d ''aks_cluster_name'') = Inr mcResp"
    and "StatusCode mcResp \<noteq> 404"
    and "Fqdn mcResp = Some fqdn"
    and "ID app = Some appID"
  shows "dataSourceAgentHelmConfigRead R meta d =
     \<lparr>data = d\<lparr>attrs := (attrs d)(''config'' \<mapsto>
         generateHelmConfig R (d_Get d ''managed_application_name'') (Datacenter consulConfig) fqdn (RetryJoin consulConfig)),
         Id := appID @ ''/agent-helm-config''\<rparr>, calls = [ManagedApplicationGet (d_Get d ''resource_group_name'') (d_Get d ''managed_application_name''), CustomResourceProviderConfig mrg,
        ManagedClustersGet (if d_Get d ''aks_resource_group'' = [] then d_Get d ''resource_group_name'' else d_Get d ''aks_resource_group'') (d_Get d ''aks_cluster_name'')],
       outcome = Return []\<rparr>"
  using assms by (simp add: dataSourceAgentHelmConfigRead_def Let_def d_Set_config d_SetId_def)

text \<open>
  Every read takes exactly one of these ways: the case distinction on what the three
  clients and the decoder return.
\<close>

lemma read_cases:
  fixes R :: runtime and meta :: Client and d :: ResourceData
  obtains
    (app_error) err where
      "ManagedApplication_Get meta (d_Get d ''resource_group_name'') (d_Get d ''managed_application_name'') = Inl err"
  | (app_404) app where
      "ManagedApplication_Get meta (d_Get d ''resource_group_name'') (d_Get d ''managed_application_name'') = Inr app"
      "StatusCode app = 404"
  | (nil_group) app where
      "ManagedApplication_Get meta (d_Get d ''resource_group_name'') (d_Get d ''managed_application_name'') = Inr app"
      "StatusCode app \<noteq> 404"
      "ManagedResourceGroupID app = None"
  | (config_error) app mrg err where
      "ManagedApplication_Get meta (d_Get d ''resource_group_name'') (d_Get d ''managed_application_name'') = Inr app"
      "StatusCode app \<noteq> 404"
      "ManagedResourceGroupID app = Some mrg"
      "CustomResourceProvider_Config meta mrg = Inl err"
  | (json_error) app mrg resp err where
      "ManagedApplication_Get meta (d_Get d ''resource_group_name'') (d_Get d ''managed_application_name'') = Inr app"
      "StatusCode app \<noteq> 404"
      "ManagedResourceGroupID app = Some mrg"
      "CustomResourceProvider_Config meta mrg = Inr resp"
      "json_Unmarshal R (ClientConfig resp) = Inl err"
  | (cluster_error) app mrg resp consulConfig err where
      "ManagedApplication_Get meta (d_Get d ''resource_group_name'') (d_Get d ''managed_application_name'') = Inr app"
      "StatusCode app \<noteq> 404"
      "ManagedResourceGroupID app = Some mrg"
      "CustomResourceProvider_Config meta mrg = Inr resp"
      "json_Unmarshal R (ClientConfig resp) = Inr consulConfig"
      "ManagedClusters_Get meta
         (if d_Get d ''aks_resource_group'' = [] then d_Get d ''resource_group_name'' else d_Get d ''aks_resource_group'')
         (d_Get d ''aks_cluster_name'') = Inl err"
  | (cluster_404) app mrg resp consulConfig mcResp where
      "ManagedApplication_Get meta (d_Get d ''resource_group_name'') (d_Get d ''managed_application_name'') = Inr app"
      "StatusCode app \<noteq> 404"
      "ManagedResourceGroupID app = Some mrg"
      "CustomResourceProvider_Config meta mrg = Inr resp"
      "json_Unmarshal R (ClientConfig resp) = Inr consulConfig"
      "ManagedClusters_Get meta
         (if d_Get d ''aks_resource_group'' = [] then d_Get d ''resource_group_name'' else d_Get d ''aks_resource_group'')
         (d_Get d ''aks_cluster_name'') = Inr mcResp"
      "StatusCode mcResp = 404"
  | (nil_fqdn) app mrg resp consulConfig mcResp where
      "ManagedApplication_Get meta (d_Get d ''resource_group_name'') (d_Get d ''managed_application_name'') = Inr app"
      "StatusCode app \<noteq> 404"
      "ManagedResourceGroupID app = Some mrg"
      "CustomResourceProvider_Config meta mrg = Inr resp"
      "json_Unmarshal R (ClientConfig resp) = Inr consulConfig"
      "ManagedClusters_Get meta
         (if d_Get d ''aks_resource_group'' = [] then d_Get d ''resource_group_name'' else d_Get d ''aks_resource_group'')
         (d_Get d ''aks_cluster_name'') = Inr mcResp"
      "StatusCode mcResp \<noteq> 404"
      "Fqdn mcResp = None"
  | (nil_id) app mrg resp consulConfig mcResp fqdn where
      "ManagedApplication_Get meta (d_Get d ''resource_group_name'') (d_Get d ''managed_application_name'') = Inr app"
      "StatusCode app \<noteq> 404"
      "ManagedResourceGroupID app = Some mrg"
      "CustomResourceProvider_Config meta mrg = Inr resp"
      "json_Unmarshal R (ClientConfig resp) = Inr consulConfig"
      "ManagedClusters_Get meta
         (if d_Get d ''aks_resource_group'' = [] then d_Get d ''resource_group_name'' else d_Get d ''aks_resource_group'')
         (d_Get d ''aks_cluster_name'') = Inr mcResp"
      "StatusCode mcResp \<noteq> 404"
      "Fqdn mcResp = Some fqdn"
      "ID app = None"
  | (success) app mrg resp consulConfig mcResp fqdn appID where
      "ManagedApplication_Get meta (d_Get d ''resource_group_name'') (d_Get d ''managed_application_name'') = Inr app"
      "StatusCode app \<noteq> 404"
      "ManagedResourceGroupID app = Some mrg"
      "CustomResourceProvider_Config meta mrg = Inr resp"
      "json_Unmarshal R (ClientConfig resp) = Inr consulConfig"
      "ManagedClusters_Get meta
         (if d_Get d ''aks_resource_group'' = [] then d_Get d ''resource_group_name'' else d_Get d ''aks_resource_group'')
         (d_Get d ''aks_cluster_name'') = Inr mcResp"
      "StatusCode mcResp \<noteq> 404"
      "Fqdn mcResp = Some fqdn"
      "ID app = Some appID"
proof (cases "ManagedApplication_Get meta (d_Get d ''resource_group_name'') (d_Get d ''managed_application_name'')")
  case (Inl err)
  then show ?thesis by (rule app_error)
next
  case app: (Inr app)
  show ?thesis
  proof (cases "StatusCode app = 404")
    case True
    with app show ?thesis by (rule app_404)
  next
    case ok: False
    show ?thesis
    proof (cases "ManagedResourceGroupID app")
      case None
      with app ok show ?thesis by (rule nil_group)
    next
      case mrg: (Some mrg)
      show ?thesis
      proof (cases "CustomResourceProvider_Config meta mrg")
        case (Inl err)
        with app ok mrg show ?thesis by (rule config_error)
      next
        case resp: (Inr resp)
        show ?thesis
        proof (cases "json_Unmarshal R (ClientConfig resp)")
          case (Inl err)
          with app ok mrg resp show ?thesis by (rule json_error)
        next
          case cfg: (Inr consulConfig)
          show ?thesis
          proof (cases "ManagedClusters_Get meta (if d_Get d ''aks_resource_group'' = [] then d_Get d ''resource_group_name'' else d_Get d ''aks_resource_group'') (d_Get d ''aks_cluster_name'')")
            case (Inl err)
            with app ok mrg resp cfg show ?thesis by (rule cluster_error)
          next
            case mc: (Inr mcResp)
            show ?thesis
            proof (cases "StatusCode mcResp = 404")
              case True
              with app ok mrg resp cfg mc show ?thesis by (rule cluster_404)
            next
              case ok': False
              show ?thesis
              proof (cases "Fqdn mcResp")
                case None
                with app ok mrg resp cfg mc ok' show ?thesis by (rule nil_fqdn)
              next
                case fqdn: (Some fqdn)
                show ?thesis
                proof (cases "ID app")
                  case None
                  with app ok mrg resp cfg mc ok' fqdn show ?thesis by (rule nil_id)
                next
                  case (Some appID)
                  with app ok mrg resp cfg mc ok' fqdn show ?thesis by (rule success)
                qed
              qed
            qed
          qed
        qed
      qed
    qed
  qed
qed

lemmas read_paths =
  read_app_error read_app_404 read_app_nil_group read_config_error read_json_error
  read_cluster_error read_cluster_404 read_cluster_nil_fqdn read_app_nil_id read_success

lemmas fixtures =
  plain_runtime_def d_example_def d_override_def app_ok_def app_404_def app_nil_id_def
  cluster_ok_def meta_ok_def meta_404_def meta_down_def meta_nil_id_def meta_config_down_def
  connection_refused_def d_Get_def

lemma Sprintf_not_found:
  "Sprintf R ''[ERROR] no HCS Cluster found for (Managed Application %q) (Resource Group %q).''
     [String a, String b] =
   ''[ERROR] no HCS Cluster found for (Managed Application '' @ Quote R a @
   '') (Resource Group '' @ Quote R b @ '').''"
  unfolding Sprintf_def
  by (simp add: doPrintf_char doPrintf_q doPrintf_done del: doPrintf.simps)

lemma Sprintf_lookup_failed:
  "Sprintf R ''failed to check for presence of existing HCS Cluster (Managed Application %q) (Resource Group %q): %+v''
     [String a, String b, Err e] =
   ''failed to check for presence of existing HCS Cluster (Managed Application '' @ Quote R a @
   '') (Resource Group '' @ Quote R b @ ''): '' @ Detail e"
  unfolding Sprintf_def
  by (simp add: doPrintf_char doPrintf_q doPrintf_plus_v doPrintf_done del: doPrintf.simps)

lemma Quote_plain:
  "list_all (\<lambda>c. 32 \<le> byte c \<and> byte c \<le> 126 \<and> c \<noteq> dquote \<and> c \<noteq> backslash) s \<Longrightarrow>
   Quote R s = dquote # s @ [dquote]"
proof -
  have "list_all (\<lambda>c. 32 \<le> byte c \<and> byte c \<le> 126 \<and> c \<noteq> dquote \<and> c \<noteq> backslash) s \<Longrightarrow>
        appendQuoted R s = s"
    by (induction s) (simp_all add: appendEscapedRune_def)
  then show "list_all (\<lambda>c. 32 \<le> byte c \<and> byte c \<le> 126 \<and> c \<noteq> dquote \<and> c \<noteq> backslash) s \<Longrightarrow>
        Quote R s = dquote # s @ [dquote]"
    by (simp add: Quote_def)
qed

lemma Sprintf_config_failed:
  "Sprintf R ''failed to get config for managed app: %+v'' [Err e] =
   ''failed to get config for managed app: '' @ Detail e"
  unfolding Sprintf_def
  by (simp add: doPrintf_char doPrintf_plus_v doPrintf_done del: doPrintf.simps)

lemma Quote_MyApp: "Quote R ''MyApp'' = dquote # ''MyApp'' @ [dquote]"
  by (rule Quote_plain) (simp add: byte_def dquote_def backslash_def)

lemma Quote_rg: "Quote R ''rg'' = dquote # ''rg'' @ [dquote]"
  by (rule Quote_plain) (simp add: byte_def dquote_def backslash_def)

lemma run_ok:
  "dataSourceAgentHelmConfigRead plain_runtime meta_ok d_example =
     \<lparr>data = d_example\<lparr>attrs := (attrs d_example)(''config'' \<mapsto>
               generateHelmConfig plain_runtime ''MyApp'' ''dc1'' ''cluster.example.com'' [''1.2.3.4'']),
             Id := ''/apps/MyApp/agent-helm-config''\<rparr>,
      calls = [ManagedApplicationGet ''rg'' ''MyApp'', CustomResourceProviderConfig ''mrg'',
               ManagedClustersGet ''rg'' ''aks''],
      outcome = Return []\<rparr>"
  by (simp add: dataSourceAgentHelmConfigRead_def Let_def fixtures d_Set_config d_SetId_def)

lemma run_override:
  "calls (dataSourceAgentHelmConfigRead plain_runtime meta_ok d_override) =
     [ManagedApplicationGet ''rg'' ''MyApp'', CustomResourceProviderConfig ''mrg'',
      ManagedClustersGet ''aks-rg'' ''aks'']"
  by (simp add: dataSourceAgentHelmConfigRead_def Let_def fixtures d_Set_config d_SetId_def)

subsection \<open>The managed application is not found\<close>

text \<open>
  C7. When the managed-application lookup returns no error and the status 404, the read
  returns one error diagnostic, whose text names the application and the resource group
  (quoted by \<^verbatim>\<open>%q\<close>); it has made no other upstream call and has left the resource data
  as they were, so \<^verbatim>\<open>config\<close> is not set. A lookup that returns an error gives another
  diagnostic, with the text of the error at its end, and the two are never equal.
\<close>

theorem managed_application_not_found:
  assumes "ManagedApplication_Get meta (d_Get d ''resource_group_name'') (d_Get d ''managed_application_name'') = Inr app"
    and "StatusCode app = 404"
  shows "dataSourceAgentHelmConfigRead R meta d =
           \<lparr>data = d,
            calls = [ManagedApplicationGet (d_Get d ''resource_group_name'') (d_Get d ''managed_application_name'')],
            outcome = Return [\<lparr>Severity = DiagError, Summary =
                ''[ERROR] no HCS Cluster found for (Managed Application '' @ Quote R (d_Get d ''managed_application_name'') @
                '') (Resource Group '' @ Quote R (d_Get d ''resource_group_name'') @ '').''\<rparr>]\<rparr>
         \<and> (\<forall>meta' err.
               ManagedApplication_Get meta' (d_Get d ''resource_group_name'') (d_Get d ''managed_application_name'') = Inl err \<longrightarrow>
               outcome (dataSourceAgentHelmConfigRead R meta' d) =
                 Return [\<lparr>Severity = DiagError, Summary =
                  ''failed to check for presence of existing HCS Cluster (Managed Application '' @
                  Quote R (d_Get d ''managed_application_name'') @ '') (Resource Group '' @
                  Quote R (d_Get d ''resource_group_name'') @ ''): '' @ Detail err\<rparr>] \<and>
               outcome (dataSourceAgentHelmConfigRead R meta' d) \<noteq> outcome (dataSourceAgentHelmConfigRead R meta d))"
proof -
  have found: "dataSourceAgentHelmConfigRead R meta d =
           \<lparr>data = d,
            calls = [ManagedApplicationGet (d_Get d ''resource_group_name'') (d_Get d ''managed_application_name'')],
            outcome = Return [\<lparr>Severity = DiagError, Summary =
                ''[ERROR] no HCS Cluster found for (Managed Application '' @ Quote R (d_Get d ''managed_application_name'') @
                '') (Resource Group '' @ Quote R (d_Get d ''resource_group_name'') @ '').''\<rparr>]\<rparr>"
    unfolding read_app_404 [OF assms] Errorf_def Sprintf_not_found ..
  have failed: "outcome (dataSourceAgentHelmConfigRead R meta' d) =
                 Return [\<lparr>Severity = DiagError, Summary =
                  ''failed to check for presence of existing HCS Cluster (Managed Application '' @
                  Quote R (d_Get d ''managed_application_name'') @ '') (Resource Group '' @
                  Quote R (d_Get d ''resource_group_name'') @ ''): '' @ Detail err\<rparr>]"
    if "ManagedApplication_Get meta' (d_Get d ''resource_group_name'') (d_Get d ''managed_application_name'') = Inl err"
    for meta' err
    unfolding read_app_error [OF that] Errorf_def Sprintf_lookup_failed by simp
  have "outcome (dataSourceAgentHelmConfigRead R meta' d) \<noteq> outcome (dataSourceAgentHelmConfigRead R meta d)"
    if "ManagedApplication_Get meta' (d_Get d ''resource_group_name'') (d_Get d ''managed_application_name'') = Inl err"
    for meta' err
    unfolding failed [OF that] found by simp
  with found failed show ?thesis
    by blast
qed

theorem managed_application_not_found_witness:
  "dataSourceAgentHelmConfigRead plain_runtime meta_404 d_example =
     \<lparr>data = d_example,
      calls = [ManagedApplicationGet ''rg'' ''MyApp''],
      outcome = Return [\<lparr>Severity = DiagError, Summary =
        ''[ERROR] no HCS Cluster found for (Managed Application \"MyApp\") (Resource Group \"rg\").''\<rparr>]\<rparr>
   \<and> outcome (dataSourceAgentHelmConfigRead plain_runtime meta_down d_example) =
     Return [\<lparr>Severity = DiagError, Summary =
       ''failed to check for presence of existing HCS Cluster (Managed Application \"MyApp\") (Resource Group \"rg\"): connection refused''\<rparr>]
   \<and> attrs (data (dataSourceAgentHelmConfigRead plain_runtime meta_404 d_example)) ''config'' = None"
proof -
  have a: "ManagedApplication_Get meta_404 (d_Get d_example ''resource_group_name'')
             (d_Get d_example ''managed_application_name'') = Inr app_404"
    by (simp add: meta_404_def)
  have b: "StatusCode app_404 = 404"
    by (simp add: app_404_def)
  have c: "ManagedApplication_Get meta_down (d_Get d_example ''resource_group_name'')
             (d_Get d_example ''managed_application_name'') = Inl connection_refused"
    by (simp add: meta_down_def)
  have names: "d_Get d_example ''resource_group_name'' = ''rg''"
    "d_Get d_example ''managed_application_name'' = ''MyApp''"
    "attrs d_example ''config'' = None"
    by (simp_all add: d_example_def d_Get_def)
  from managed_application_not_found [OF a b, of plain_runtime] c
  show ?thesis
    unfolding names by (simp add: Quote_MyApp Quote_rg dquote_def connection_refused_def names)
qed

subsection \<open>The resource group of the managed cluster\<close>

text \<open>
  C6. Whenever the read looks the managed cluster up, it has looked the managed
  application up in \<^verbatim>\<open>resource_group_name\<close>, and it looks the cluster up by
  \<^verbatim>\<open>aks_cluster_name\<close> in this resource group: \<^verbatim>\<open>resource_group_name\<close> when
  \<^verbatim>\<open>aks_resource_group\<close> is absent or empty, \<^verbatim>\<open>aks_resource_group\<close> otherwise.
\<close>

theorem aks_resource_group_default:
  "ManagedClustersGet g c \<in> set (calls (dataSourceAgentHelmConfigRead R meta d)) \<Longrightarrow>
   ManagedApplicationGet (d_Get d ''resource_group_name'') (d_Get d ''managed_application_name'')
     \<in> set (calls (dataSourceAgentHelmConfigRead R meta d)) \<and>
   c = d_Get d ''aks_cluster_name'' \<and>
   g = (case attrs d ''aks_resource_group'' of
          None \<Rightarrow> d_Get d ''resource_group_name''
        | Some v \<Rightarrow> if v = [] then d_Get d ''resource_group_name'' else v)"
proof (cases rule: read_cases [where R = R and meta = meta and d = d])
qed (auto simp add: read_paths d_Get_def split: option.splits)

theorem aks_resource_group_default_witness:
  "ManagedClustersGet ''rg'' ''aks'' \<in> set (calls (dataSourceAgentHelmConfigRead plain_runtime meta_ok d_example)) \<and>
   ''rg'' = (case attrs d_example ''aks_resource_group'' of
        None \<Rightarrow> d_Get d_example ''resource_group_name''
      | Some v \<Rightarrow> if v = [] then d_Get d_example ''resource_group_name'' else v) \<and>
   ManagedClustersGet ''aks-rg'' ''aks'' \<in> set (calls (dataSourceAgentHelmConfigRead plain_runtime meta_ok d_override)) \<and>
   ''aks-rg'' = (case attrs d_override ''aks_resource_group'' of
        None \<Rightarrow> d_Get d_override ''resource_group_name''
      | Some v \<Rightarrow> if v = [] then d_Get d_override ''resource_group_name'' else v)"
proof -
  have 1: "ManagedClustersGet ''rg'' ''aks'' \<in> set (calls (dataSourceAgentHelmConfigRead plain_runtime meta_ok d_example))"
    by (simp add: run_ok)
  have 2: "ManagedClustersGet ''aks-rg'' ''aks'' \<in> set (calls (dataSourceAgentHelmConfigRead plain_runtime meta_ok d_override))"
    by (simp add: run_override)
  from aks_resource_group_default [OF 1] aks_resource_group_default [OF 2] 1 2
  show ?thesis
    by blast
qed

subsection \<open>The identifier\<close>

text \<open>
  C9. A read that returns no diagnostics has set the identifier of the resource to the
  \<^verbatim>\<open>ID\<close> of the managed application followed by \<^verbatim>\<open>/agent-helm-config\<close>.
\<close>

theorem successful_read_sets_id:
  "outcome (dataSourceAgentHelmConfigRead R meta d) = Return [] \<Longrightarrow>
   \<exists>app appID.
     ManagedApplication_Get meta (d_Get d ''resource_group_name'') (d_Get d ''managed_application_name'') = Inr app \<and>
     ID app = Some appID \<and>
     Id (data (dataSourceAgentHelmConfigRead R meta d)) = appID @ ''/agent-helm-config''"
  by (cases rule: read_cases [where R = R and meta = meta and d = d])
     (simp_all add: read_paths Errorf_not_nil)

theorem successful_read_sets_id_witness:
  "outcome (dataSourceAgentHelmConfigRead plain_runtime meta_ok d_example) = Return [] \<and>
   Id (data (dataSourceAgentHelmConfigRead plain_runtime meta_ok d_example)) = ''/apps/MyApp/agent-helm-config''"
proof -
  have h: "outcome (dataSourceAgentHelmConfigRead plain_runtime meta_ok d_example) = Return []"
    by (simp add: run_ok)
  from successful_read_sets_id [OF h] obtain app appID where
    "ManagedApplication_Get meta_ok (d_Get d_example ''resource_group_name'')
       (d_Get d_example ''managed_application_name'') = Inr app"
    and "ID app = Some appID"
    and "Id (data (dataSourceAgentHelmConfigRead plain_runtime meta_ok d_example)) = appID @ ''/agent-helm-config''"
    by blast
  then show ?thesis
    using h by (auto simp add: meta_ok_def app_ok_def)
qed

subsection \<open>Nil pointers\<close>

text \<open>
  C10, as stated, says that after a managed-application lookup without error and
  without 404 the read dereferences \<^verbatim>\<open>ID\<close> unconditionally, and that it completes
  without a panic only if the three pointer fields are present. The run below refutes
  it: the application has no \<^verbatim>\<open>ID\<close>, the configuration lookup fails, and the read
  returns the diagnostic of that failure without ever reaching the \<^verbatim>\<open>ID\<close>.
\<close>

theorem nil_id_without_panic_counterexample:
  "ManagedApplication_Get meta_config_down (d_Get d_example ''resource_group_name'')
     (d_Get d_example ''managed_application_name'') = Inr app_nil_id \<and>
   StatusCode app_nil_id \<noteq> 404 \<and>
   ID app_nil_id = None \<and>
   outcome (dataSourceAgentHelmConfigRead plain_runtime meta_config_down d_example) =
     Return [\<lparr>Severity = DiagError,
              Summary = ''failed to get config for managed app: connection refused''\<rparr>]"
  by (simp add: dataSourceAgentHelmConfigRead_def Let_def fixtures Errorf_def Sprintf_config_failed)

text \<open>
  C10, amended. The read panics exactly when it reaches a dereference of a nil field:
  \<^verbatim>\<open>ManagedResourceGroupID\<close> right after a managed-application lookup without error and
  without 404; \<^verbatim>\<open>Fqdn\<close>, and after it \<^verbatim>\<open>ID\<close>, once the configuration has been fetched
  and decoded and the managed-cluster lookup has returned without error and without
  404. No check guards the three dereferences. A read that returns no diagnostics has
  found all three fields present.
\<close>

theorem panic_iff_nil_pointer_reached:
  "(outcome (dataSourceAgentHelmConfigRead R meta d) = Panic \<longleftrightarrow>
      (\<exists>app.
         ManagedApplication_Get meta (d_Get d ''resource_group_name'') (d_Get d ''managed_application_name'') = Inr app \<and>
         StatusCode app \<noteq> 404 \<and>
         (ManagedResourceGroupID app = None \<or>
          (\<exists>mrg resp consulConfig mcResp.
             ManagedResourceGroupID app = Some mrg \<and>
             CustomResourceProvider_Config meta mrg = Inr resp \<and>
             json_Unmarshal R (ClientConfig resp) = Inr consulConfig \<and>
             ManagedClusters_Get meta
           (if d_Get d ''aks_resource_group'' = [] then d_Get d ''resource_group_name''
            else d_Get d ''aks_resource_group'')
           (d_Get d ''aks_cluster_name'') = Inr mcResp \<and>
             StatusCode mcResp \<noteq> 404 \<and>
             (Fqdn mcResp = None \<or> ID app = None)))))
   \<and> (outcome (dataSourceAgentHelmConfigRead R meta d) = Return [] \<longrightarrow>
      (\<exists>app mcResp.
         ManagedApplication_Get meta (d_Get d ''resource_group_name'') (d_Get d ''managed_application_name'') = Inr app \<and>
         ManagedClusters_Get meta
           (if d_Get d ''aks_resource_group'' = [] then d_Get d ''resource_group_name''
            else d_Get d ''aks_resource_group'')
           (d_Get d ''aks_cluster_name'') = Inr mcResp \<and>
         ManagedResourceGroupID app \<noteq> None \<and> ID app \<noteq> None \<and> Fqdn mcResp \<noteq> None))"
  by (cases rule: read_cases [where R = R and meta = meta and d = d])
     (simp_all add: read_paths Errorf_not_nil)

theorem panic_iff_nil_pointer_reached_witness:
  "outcome (dataSourceAgentHelmConfigRead plain_runtime meta_nil_id d_example) = Panic \<and>
   outcome (dataSourceAgentHelmConfigRead plain_runtime meta_ok d_example) \<noteq> Panic"
  using panic_iff_nil_pointer_reached [of plain_runtime meta_nil_id d_example]
        panic_iff_nil_pointer_reached [of plain_runtime meta_ok d_example]
  by (simp add: fixtures)

end
